theory Spec2Isabelle
  imports Main
begin

section \<open>Lesson data\<close>

text \<open>
  The screen \<^verbatim>\<open>ComprehensiveStudy.tsx\<close> holds a constant table of lessons and a component
  whose state is nine \<^verbatim>\<open>useState\<close> cells. Strings are kept as the UTF-8 bytes of the
  source file; two string literals are equal in the program exactly when their byte
  sequences are.
\<close>

datatype qtype = Choice | Translation | Dialogue | WordOrder | VideoChoice

text \<open>The field \<^verbatim>\<open>correct: string | number\<close>.\<close>

datatype answer_key = Str string | Num int

record Word =
  word_text :: string
  word_order :: int

record Sentence =
  prefix :: "string option"
  suffix :: "string option"

text \<open>
  The interface \<^verbatim>\<open>Question\<close>; a field marked \<^verbatim>\<open>?\<close> in the source is an option here.
  \<open>qtype\<close> is the field \<^verbatim>\<open>type\<close> and \<open>qcontext\<close> the field \<^verbatim>\<open>context\<close>.
\<close>

record Question =
  qtype :: qtype
  question :: string
  qcontext :: "string option"
  options :: "string list option"
  correct :: answer_key
  explanation :: string
  hint :: "string option"
  words :: "Word list option"
  audio :: "string option"
  video :: "string option"
  sentence :: "Sentence option"

record Lesson =
  lesson_id :: int
  title :: string
  questions :: "Question list"

text \<open>The first question of the table (source lines 27 to 39).\<close>

definition video_choice_question :: Question where
  "video_choice_question =
   \<lparr>qtype = VideoChoice,
    question = [CHR 0xE5, CHR 0x8B, CHR 0x95, CHR 0xE7, CHR 0x94, CHR 0xBB, CHR 0xE3, CHR
      0x82, CHR 0x92, CHR 0xE8, CHR 0xA6, CHR 0x8B, CHR 0xE3, CHR 0x81, CHR 0xA6, CHR 0xE3, CHR
      0x80, CHR 0x81, CHR 0xE9, CHR 0x81, CHR 0xA9, CHR 0xE5, CHR 0x88, CHR 0x87, CHR 0xE3, CHR
      0x81, CHR 0xAA, CHR 0xE8, CHR 0xA8, CHR 0x80, CHR 0xE8, CHR 0x91, CHR 0x89, CHR 0xE3, CHR
      0x82, CHR 0x92, CHR 0xE9, CHR 0x81, CHR 0xB8, CHR 0xE3, CHR 0x82, CHR 0x93, CHR 0xE3, CHR
      0x81, CHR 0xA7, CHR 0xE3, CHR 0x81, CHR 0x8F, CHR 0xE3, CHR 0x81, CHR 0xA0, CHR 0xE3, CHR
      0x81, CHR 0x95, CHR 0xE3, CHR 0x81, CHR 0x84, CHR 0xE3, CHR 0x80, CHR 0x82],
    qcontext = None,
    options = Some
      [[CHR 0xE7, CHR 0x94, CHR 0xB0, CHR 0xE4, CHR 0xB8, CHR 0xAD],
       [CHR 0xE5, CHR 0xB1, CHR 0xB1, CHR 0xE7, CHR 0x94, CHR 0xB0],
       [CHR 0xE4, CHR 0xBD, CHR 0x90, CHR 0xE8, CHR 0x97, CHR 0xA4],
       [CHR 0xE9, CHR 0x88, CHR 0xB4, CHR 0xE6, CHR 0x9C, CHR 0xA8]],
    correct = Num 0,
    explanation = [CHR 0xE5, CHR 0x8B, CHR 0x95, CHR 0xE7, CHR 0x94, CHR 0xBB, CHR 0xE3, CHR
      0x81, CHR 0xAE, CHR 0xE4, CHR 0xBA, CHR 0xBA, CHR 0xE7, CHR 0x89, CHR 0xA9, CHR 0xE3, CHR
      0x81, CHR 0xAF, CHR 0xE3, CHR 0x80, CHR 0x8C, CHR 0xE7, CHR 0x94, CHR 0xB0, CHR 0xE4, CHR
      0xB8, CHR 0xAD, CHR 0xE3, CHR 0x80, CHR 0x8D, CHR 0xE3, CHR 0x81, CHR 0xA8, CHR 0xE8, CHR
      0x87, CHR 0xAA, CHR 0xE5, CHR 0xB7, CHR 0xB1, CHR 0xE7, CHR 0xB4, CHR 0xB9, CHR 0xE4, CHR
      0xBB, CHR 0x8B, CHR 0xE3, CHR 0x81, CHR 0x97, CHR 0xE3, CHR 0x81, CHR 0xA6, CHR 0xE3, CHR
      0x81, CHR 0x84, CHR 0xE3, CHR 0x81, CHR 0xBE, CHR 0xE3, CHR 0x81, CHR 0x99, CHR 0xE3, CHR
      0x80, CHR 0x82],
    hint = Some [CHR 0xE5, CHR 0x8B, CHR 0x95, CHR 0xE7, CHR 0x94, CHR 0xBB, CHR 0xE3, CHR
      0x82, CHR 0x92, CHR 0xE3, CHR 0x82, CHR 0x82, CHR 0xE3, CHR 0x81, CHR 0x86, CHR 0xE4, CHR
      0xB8, CHR 0x80, CHR 0xE5, CHR 0xBA, CHR 0xA6, CHR 0xE8, CHR 0xA6, CHR 0x8B, CHR 0xE3, CHR
      0x81, CHR 0xA6, CHR 0xE3, CHR 0x81, CHR 0xBF, CHR 0xE3, CHR 0x81, CHR 0xBE, CHR 0xE3, CHR
      0x81, CHR 0x97, CHR 0xE3, CHR 0x82, CHR 0x87, CHR 0xE3, CHR 0x81, CHR 0x86, CHR 0xE3, CHR
      0x80, CHR 0x82],
    words = None,
    audio = None,
    video = Some ''/videos/self-introduction.mp4'',
    sentence = Some
      \<lparr>prefix = Some [CHR 0xE3, CHR 0x81, CHR 0xAF, CHR 0xE3, CHR 0x81, CHR 0x98, CHR 0xE3,
          CHR 0x82, CHR 0x81, CHR 0xE3, CHR 0x81, CHR 0xBE, CHR 0xE3, CHR 0x81, CHR 0x97, CHR
          0xE3, CHR 0x81, CHR 0xA6, CHR 0xE3, CHR 0x80, CHR 0x81, CHR 0xE7, CHR 0xA7, CHR 0x81,
          CHR 0xE3, CHR 0x81, CHR 0xAF],
       suffix = Some [CHR 0xE3, CHR 0x81, CHR 0xA7, CHR 0xE3, CHR 0x81, CHR 0x99, CHR 0xE3,
          CHR 0x80, CHR 0x82]\<rparr>\<rparr>"

text \<open>The second question (source lines 40 to 52); \<open>words\<close> is in the array order of the source.\<close>

definition word_order_question :: Question where
  "word_order_question =
   \<lparr>qtype = WordOrder,
    question = [CHR 0xE5, CHR 0x8D, CHR 0x98, CHR 0xE8, CHR 0xAA, CHR 0x9E, CHR 0xE3, CHR
      0x82, CHR 0x92, CHR 0xE4, CHR 0xB8, CHR 0xA6, CHR 0xE3, CHR 0x81, CHR 0xB3, CHR 0xE6, CHR
      0x9B, CHR 0xBF, CHR 0xE3, CHR 0x81, CHR 0x88, CHR 0xE3, CHR 0x81, CHR 0xA6, CHR 0xE3, CHR
      0x80, CHR 0x81, CHR 0xE6, CHR 0xAD, CHR 0xA3, CHR 0xE3, CHR 0x81, CHR 0x97, CHR 0xE3, CHR
      0x81, CHR 0x84, CHR 0xE6, CHR 0x96, CHR 0x87, CHR 0xE7, CHR 0xAB, CHR 0xA0, CHR 0xE3, CHR
      0x82, CHR 0x92, CHR 0xE4, CHR 0xBD, CHR 0x9C, CHR 0xE3, CHR 0x81, CHR 0xA3, CHR 0xE3, CHR
      0x81, CHR 0xA6, CHR 0xE3, CHR 0x81, CHR 0x8F, CHR 0xE3, CHR 0x81, CHR 0xA0, CHR 0xE3, CHR
      0x81, CHR 0x95, CHR 0xE3, CHR 0x81, CHR 0x84, CHR 0xE3, CHR 0x80, CHR 0x82],
    qcontext = None,
    options = None,
    correct = Str [CHR 0xE7, CHR 0xA7, CHR 0x81, CHR 0xE3, CHR 0x81, CHR 0xAF, CHR 0xE7, CHR
      0x94, CHR 0xB0, CHR 0xE4, CHR 0xB8, CHR 0xAD, CHR 0xE3, CHR 0x81, CHR 0xA7, CHR 0xE3, CHR
      0x81, CHR 0x99, CHR 0xE3, CHR 0x80, CHR 0x82],
    explanation = [CHR 0xE3, CHR 0x80, CHR 0x8C, CHR 0xE7, CHR 0xA7, CHR 0x81, CHR 0xE3, CHR
      0x81, CHR 0xAF, CHR 0x5B, CHR 0xE5, CHR 0x90, CHR 0x8D, CHR 0xE5, CHR 0x89, CHR 0x8D, CHR
      0x5D, CHR 0xE3, CHR 0x81, CHR 0xA7, CHR 0xE3, CHR 0x81, CHR 0x99, CHR 0xE3, CHR 0x80, CHR
      0x8D, CHR 0xE3, CHR 0x81, CHR 0xAF, CHR 0xE5, CHR 0x9F, CHR 0xBA, CHR 0xE6, CHR 0x9C, CHR
      0xAC, CHR 0xE7, CHR 0x9A, CHR 0x84, CHR 0xE3, CHR 0x81, CHR 0xAA, CHR 0xE8, CHR 0x87, CHR
      0xAA, CHR 0xE5, CHR 0xB7, CHR 0xB1, CHR 0xE7, CHR 0xB4, CHR 0xB9, CHR 0xE4, CHR 0xBB, CHR
      0x8B, CHR 0xE3, CHR 0x81, CHR 0xAE, CHR 0xE5, CHR 0xBD, CHR 0xA2, CHR 0xE3, CHR 0x81, CHR
      0xA7, CHR 0xE3, CHR 0x81, CHR 0x99, CHR 0xE3, CHR 0x80, CHR 0x82],
    hint = Some [CHR 0xE3, CHR 0x80, CHR 0x8C, CHR 0xE7, CHR 0xA7, CHR 0x81, CHR 0xE3, CHR
      0x81, CHR 0xAF, CHR 0xE3, CHR 0x80, CHR 0x8D, CHR 0xE3, CHR 0x81, CHR 0xA7, CHR 0xE5, CHR
      0xA7, CHR 0x8B, CHR 0xE3, CHR 0x81, CHR 0xBE, CHR 0xE3, CHR 0x82, CHR 0x8B, CHR 0xE6, CHR
      0x96, CHR 0x87, CHR 0xE7, CHR 0xAB, CHR 0xA0, CHR 0xE3, CHR 0x81, CHR 0xA7, CHR 0xE3, CHR
      0x81, CHR 0x99, CHR 0xE3, CHR 0x80, CHR 0x82],
    words = Some
      [\<lparr>word_text = [CHR 0xE3, CHR 0x81, CHR 0xA7, CHR 0xE3, CHR 0x81, CHR 0x99, CHR 0xE3, CHR
         0x80, CHR 0x82], word_order = 3\<rparr>,
       \<lparr>word_text = [CHR 0xE7, CHR 0x94, CHR 0xB0, CHR 0xE4, CHR 0xB8, CHR 0xAD], word_order =
         2\<rparr>,
       \<lparr>word_text = [CHR 0xE7, CHR 0xA7, CHR 0x81, CHR 0xE3, CHR 0x81, CHR 0xAF], word_order =
         1\<rparr>],
    audio = Some ''path-to-audio.mp3'',
    video = None,
    sentence = None\<rparr>"

definition lessons :: "Lesson list" where
  "lessons =
   [\<lparr>lesson_id = 1,
     title = [CHR 0xE8, CHR 0x87, CHR 0xAA, CHR 0xE5, CHR 0xB7, CHR 0xB1, CHR 0xE7, CHR 0xB4,
       CHR 0xB9, CHR 0xE4, CHR 0xBB, CHR 0x8B],
     questions = [video_choice_question, word_order_question]\<rparr>]"

text \<open>\<^verbatim>\<open>question.options?.map\<close> and \<^verbatim>\<open>question.words?.map\<close> render nothing for a missing field.\<close>

definition opts :: "Question \<Rightarrow> string list" where
  "opts q = (case options q of None \<Rightarrow> [] | Some os \<Rightarrow> os)"

definition wds :: "Question \<Rightarrow> Word list" where
  "wds q = (case words q of None \<Rightarrow> [] | Some ws \<Rightarrow> ws)"

subsection \<open>Content validation\<close>

text \<open>
  The sentence a word-order question spells: the words sorted ascending by their
  \<^verbatim>\<open>order\<close> field, their \<^verbatim>\<open>text\<close> fields concatenated.
\<close>

definition assembled :: "Question \<Rightarrow> string" where
  "assembled q = concat (map word_text (sort_key word_order (wds q)))"

definition content_ok :: "Question \<Rightarrow> bool" where
  "content_ok q =
     (case qtype q of
        WordOrder \<Rightarrow> correct q = Str (assembled q)
      | _ \<Rightarrow> (case correct q of
                Num c \<Rightarrow> 0 \<le> c \<and> c < int (length (opts q))
              | Str _ \<Rightarrow> False))"

section \<open>Session state\<close>

text \<open>
  A word object is identified by the place it has in the table: lesson index, question
  index, position in \<^verbatim>\<open>words\<close>. Every object literal of the table is one object, so two
  words with equal text and order are still two objects, and
  \<^verbatim>\<open>orderedWords.includes(word)\<close> compares these identities, not the fields.
\<close>

type_synonym word_ref = "nat \<times> nat \<times> nat"

text \<open>
  The nine \<^verbatim>\<open>useState\<close> cells of the component (source lines 60 to 68). The numbers
  \<^verbatim>\<open>lives\<close> and \<^verbatim>\<open>score\<close> are integers, so that \<^verbatim>\<open>lives - 1\<close> can go below zero where
  the code lets it; the two indices only ever receive \<open>0\<close> and \<open>+ 1\<close>. The last field is
  not component state: it logs the paths handed to \<^verbatim>\<open>navigate\<close>, in call order.
\<close>

record state =
  currentLesson :: nat
  currentQuestion :: nat
  selectedAnswer :: "int option"
  showAnswer :: bool
  lives :: int
  showHint :: bool
  score :: int
  orderedWords :: "word_ref list"
  isPlaying :: bool
  navigated :: "string list"

definition initial :: state where
  "initial =
   \<lparr>currentLesson = 0, currentQuestion = 0, selectedAnswer = None, showAnswer = False,
    lives = 3, showHint = False, score = 0, orderedWords = [], isPlaying = False,
    navigated = []\<rparr>"

text \<open>
  \<^verbatim>\<open>lessons[currentLesson]\<close> and \<^verbatim>\<open>lesson.questions[currentQuestion]\<close>: an index out of
  range reads \<^verbatim>\<open>undefined\<close>, here \<open>None\<close>.
\<close>

definition lesson_at :: "Lesson list \<Rightarrow> nat \<Rightarrow> Lesson option" where
  "lesson_at ls i = (if i < length ls then Some (ls ! i) else None)"

definition question_at :: "Lesson \<Rightarrow> nat \<Rightarrow> Question option" where
  "question_at lesson i =
     (if i < length (questions lesson) then Some (questions lesson ! i) else None)"

section \<open>Event handlers\<close>

text \<open>
  The handlers are closures over the table, the current lesson and question, and the
  state cells of the render that created them. Here they take what they close over as
  arguments (\<open>ls\<close> is the table), and return the state after their \<^verbatim>\<open>set...\<close> calls.
  What \<^verbatim>\<open>handleNext\<close> does to the video element (rewind, pause) is outside the state.
\<close>

definition handleNext :: "Lesson list \<Rightarrow> Lesson \<Rightarrow> state \<Rightarrow> state" where
  "handleNext ls lesson s =
     (let s1 =
        (if int (currentQuestion s) < int (length (questions lesson)) - 1
           then s\<lparr>currentQuestion := currentQuestion s + 1\<rparr>
         else if int (currentLesson s) < int (length ls) - 1
           then s\<lparr>currentLesson := currentLesson s + 1, currentQuestion := 0\<rparr>
         else s\<lparr>navigated := navigated s @ [''/'']\<rparr>)
      in s1\<lparr>selectedAnswer := None, showAnswer := False, showHint := False,
            isPlaying := False\<rparr>)"

text \<open>
  \<^verbatim>\<open>handleVideoPlay\<close> reads \<^verbatim>\<open>videoRef.current.paused\<close>; the argument is that reading,
  \<open>None\<close> when the ref is null.
\<close>

definition handleVideoPlay :: "bool option \<Rightarrow> state \<Rightarrow> state" where
  "handleVideoPlay paused s =
     (case paused of
        None \<Rightarrow> s
      | Some p \<Rightarrow> if p then s\<lparr>isPlaying := True\<rparr> else s\<lparr>isPlaying := False\<rparr>)"

definition handleAnswer :: "Question \<Rightarrow> int \<Rightarrow> state \<Rightarrow> state" where
  "handleAnswer q answerIndex s =
     (let s1 = s\<lparr>selectedAnswer := Some answerIndex, showAnswer := True\<rparr>
      in if Num answerIndex = correct q
           then s1\<lparr>score := score s + 10\<rparr>
           else s1\<lparr>lives := lives s - 1\<rparr>)"

text \<open>The option button: \<^verbatim>\<open>onClick={() => !showAnswer && handleAnswer(index)}\<close>.\<close>

definition option_onClick :: "Question \<Rightarrow> nat \<Rightarrow> state \<Rightarrow> state" where
  "option_onClick q index s = (if \<not> showAnswer s then handleAnswer q (int index) s else s)"

text \<open>
  The word button: its \<^verbatim>\<open>onClick\<close> pushes the word on a copy of \<^verbatim>\<open>orderedWords\<close>; its
  \<^verbatim>\<open>disabled\<close> attribute is \<^verbatim>\<open>orderedWords.includes(word)\<close>.
\<close>

definition word_onClick :: "word_ref \<Rightarrow> state \<Rightarrow> state" where
  "word_onClick word s = s\<lparr>orderedWords := orderedWords s @ [word]\<rparr>"

definition word_disabled :: "word_ref \<Rightarrow> state \<Rightarrow> bool" where
  "word_disabled word s = (word \<in> set (orderedWords s))"

text \<open>The retry button of the game-over screen (source lines 218 to 225).\<close>

definition retry_onClick :: "state \<Rightarrow> state" where
  "retry_onClick s =
     s\<lparr>lives := 3, score := 0, currentQuestion := 0, currentLesson := 0, orderedWords := []\<rparr>"

text \<open>The back button: \<^verbatim>\<open>navigate('/')\<close>.\<close>

definition back_onClick :: "state \<Rightarrow> state" where
  "back_onClick s = s\<lparr>navigated := navigated s @ [''/'']\<rparr>"

section \<open>The rendered screen\<close>

text \<open>
  What the user and the video element can do to the screen. A click reaches a handler
  only through a button that the current render contains and does not disable.
  \<open>PlayClick p\<close> is a click on the play overlay while the video element reports
  \<^verbatim>\<open>paused == p\<close>; \<open>VideoEnded\<close> is the element's \<^verbatim>\<open>ended\<close> event.
\<close>

datatype event =
    OptionClick nat
  | WordClick nat
  | HintClick
  | NextClick
  | RetryClick
  | BackClick
  | PlayClick bool
  | VideoEnded

datatype error = TypeError

text \<open>
  \<^verbatim>\<open>renderQuestion\<close> (source lines 116 to 209): the video, play overlay and option buttons
  of a video-choice question, the word buttons of a word-order question, nothing for the
  other three types.
\<close>

definition renderQuestion :: "Question \<Rightarrow> event \<Rightarrow> state \<Rightarrow> state" where
  "renderQuestion q ev s =
     (if qtype q = VideoChoice then
        (case ev of
           PlayClick p \<Rightarrow> handleVideoPlay (Some p) s
         | VideoEnded \<Rightarrow> s\<lparr>isPlaying := False\<rparr>
         | OptionClick index \<Rightarrow>
             if index < length (opts q) \<and> \<not> showAnswer s then option_onClick q index s else s
         | _ \<Rightarrow> s)
      else if qtype q = WordOrder then
        (case ev of
           WordClick index \<Rightarrow>
             (let word = (currentLesson s, currentQuestion s, index)
              in if index < length (wds q) \<and> \<not> word_disabled word s
                   then word_onClick word s else s)
         | _ \<Rightarrow> s)
      else s)"

text \<open>\<^verbatim>\<open>question.hint &&\<close>: a missing or empty hint is falsy.\<close>

definition truthy :: "string option \<Rightarrow> bool" where
  "truthy x = (case x of None \<Rightarrow> False | Some t \<Rightarrow> t \<noteq> [])"

text \<open>
  The component body (source lines 57 to 310). \<^verbatim>\<open>lesson.questions\<close> on a missing lesson
  throws. With \<^verbatim>\<open>lives === 0\<close> only the game-over screen with its retry button is
  returned. Otherwise the screen reads \<^verbatim>\<open>question.question\<close>, which throws on a missing
  question, and shows the back button, the question, the hint button while
  \<^verbatim>\<open>!showAnswer && question.hint\<close>, and the next button while \<^verbatim>\<open>showAnswer\<close>. An event
  whose button is not on the screen leaves the state as it is.
\<close>

definition ComprehensiveStudy :: "Lesson list \<Rightarrow> event \<Rightarrow> state \<Rightarrow> error + state" where
  "ComprehensiveStudy ls ev s =
     (case lesson_at ls (currentLesson s) of
        None \<Rightarrow> Inl TypeError
      | Some lesson \<Rightarrow>
          if lives s = 0 then Inr (case ev of RetryClick \<Rightarrow> retry_onClick s | _ \<Rightarrow> s)
          else
            (case question_at lesson (currentQuestion s) of
               None \<Rightarrow> Inl TypeError
             | Some q \<Rightarrow>
                 Inr (case ev of
                        BackClick \<Rightarrow> back_onClick s
                      | HintClick \<Rightarrow>
                          if \<not> showAnswer s \<and> truthy (hint q) then s\<lparr>showHint := True\<rparr> else s
                      | NextClick \<Rightarrow> if showAnswer s then handleNext ls lesson s else s
                      | RetryClick \<Rightarrow> s
                      | _ \<Rightarrow> renderQuestion q ev s)))"

text \<open>A session: the events in order from a state, stopping where a render throws.\<close>

fun run :: "Lesson list \<Rightarrow> event list \<Rightarrow> state \<Rightarrow> error + state" where
  "run ls [] s = Inr s"
| "run ls (ev # evs) s =
     (case ComprehensiveStudy ls ev s of
        Inl e \<Rightarrow> Inl e
      | Inr s' \<Rightarrow> run ls evs s')"

section \<open>Predicates of the analysis\<close>

text \<open>A table the component can render from the start: it has a lesson, and no lesson is empty.\<close>

definition wf_lessons :: "Lesson list \<Rightarrow> bool" where
  "wf_lessons ls = (ls \<noteq> [] \<and> list_all (\<lambda>lesson. questions lesson \<noteq> []) ls)"

definition in_bounds :: "Lesson list \<Rightarrow> state \<Rightarrow> bool" where
  "in_bounds ls s =
     (currentLesson s < length ls \<and>
      currentQuestion s < length (questions (ls ! currentLesson s)))"

text \<open>The game-over screen is the branch \<^verbatim>\<open>if (lives === 0)\<close> of the component.\<close>

definition game_over :: "state \<Rightarrow> bool" where
  "game_over s = (lives s = 0)"

definition session_inv :: "Lesson list \<Rightarrow> state \<Rightarrow> bool" where
  "session_inv ls s =
     (in_bounds ls s \<and> 0 \<le> lives s \<and> lives s \<le> 3 \<and> (lives s = 0 \<longrightarrow> showAnswer s) \<and>
      distinct (orderedWords s))"

text \<open>Position \<open>(lesson, question)\<close> and its lexicographic order.\<close>

definition position :: "state \<Rightarrow> nat \<times> nat" where
  "position s = (currentLesson s, currentQuestion s)"


text \<open>
  The number of correct answers given since the last retry (or since mount), counted
  along the events: an event is a correct answer when it is a click on an option button
  that is on the screen and enabled, with the index the question marks correct; it is a
  retry when it is a click on the retry button of the game-over screen.
\<close>

definition correct_answer :: "Lesson list \<Rightarrow> event \<Rightarrow> state \<Rightarrow> bool" where
  "correct_answer ls ev s =
     (case ev of
        OptionClick index \<Rightarrow>
          lives s \<noteq> 0 \<and> \<not> showAnswer s \<and>
          (case lesson_at ls (currentLesson s) of
             None \<Rightarrow> False
           | Some lesson \<Rightarrow>
               (case question_at lesson (currentQuestion s) of
                  None \<Rightarrow> False
                | Some q \<Rightarrow>
                    qtype q = VideoChoice \<and> index < length (opts q) \<and>
                    correct q = Num (int index)))
      | _ \<Rightarrow> False)"

definition restart :: "event \<Rightarrow> state \<Rightarrow> bool" where
  "restart ev s = (ev = RetryClick \<and> lives s = 0)"

fun correct_since_reset :: "Lesson list \<Rightarrow> event list \<Rightarrow> state \<Rightarrow> nat \<Rightarrow> nat" where
  "correct_since_reset ls [] s n = n"
| "correct_since_reset ls (ev # evs) s n =
     (case ComprehensiveStudy ls ev s of
        Inl e \<Rightarrow> n
      | Inr s' \<Rightarrow>
          correct_since_reset ls evs s'
            (if restart ev s then 0 else if correct_answer ls ev s then n + 1 else n))"



text \<open>
  A table for exercising the game-over path, which the shipped table cannot reach (its
  only answerable question costs at most one life): the shipped video-choice question
  four times, then the shipped word-order question.
\<close>

definition drill :: "Lesson list" where
  "drill =
     [\<lparr>lesson_id = 1, title = ''drill'',
       questions = [video_choice_question, video_choice_question, video_choice_question,
                    video_choice_question, word_order_question]\<rparr>]"


section \<open>The shipped content is valid\<close>

text \<open>
  C8. Every word-order question of the hard-coded table spells its \<^verbatim>\<open>correct\<close> string
  exactly when its words are sorted by \<^verbatim>\<open>order\<close> and concatenated, and every choice-like
  question has an integer \<^verbatim>\<open>correct\<close> with \<open>0 \<le> correct < length options\<close>.
\<close>

theorem lessons_content_ok:
  "list_all (\<lambda>lesson. list_all content_ok (questions lesson)) lessons"
  by (simp add: lessons_def content_ok_def assembled_def wds_def opts_def
      video_choice_question_def word_order_question_def)

section \<open>Answering\<close>

lemmas handler_defs = handleNext_def handleVideoPlay_def handleAnswer_def option_onClick_def
  word_onClick_def word_disabled_def retry_onClick_def back_onClick_def

lemmas screen_defs = ComprehensiveStudy_def renderQuestion_def lesson_at_def question_at_def
  truthy_def opts_def wds_def

text \<open>
  C1. A click on an option button while the answer is not revealed stores the index as the
  selected answer and reveals the answer; when the index is the question's \<^verbatim>\<open>correct\<close> the
  score grows by exactly 10 and the lives stay, otherwise the lives drop by exactly 1 and
  the score stays.
\<close>

theorem option_onClick_scores:
  assumes "\<not> showAnswer s"
  shows "selectedAnswer (option_onClick q index s) = Some (int index) \<and>
         showAnswer (option_onClick q index s) \<and>
         (if correct q = Num (int index)
            then score (option_onClick q index s) = score s + 10 \<and>
                 lives (option_onClick q index s) = lives s
            else lives (option_onClick q index s) = lives s - 1 \<and>
                 score (option_onClick q index s) = score s)"
  using assms by (auto simp: option_onClick_def handleAnswer_def Let_def)

theorem option_onClick_scores_witness:
  "\<not> showAnswer initial \<and>
   correct video_choice_question = Num (int 0) \<and>
   score (option_onClick video_choice_question 0 initial) = 10 \<and>
   lives (option_onClick video_choice_question 0 initial) = 3 \<and>
   correct video_choice_question \<noteq> Num (int 2) \<and>
   lives (option_onClick video_choice_question 2 initial) = 2 \<and>
   score (option_onClick video_choice_question 2 initial) = 0 \<and>
   selectedAnswer (option_onClick video_choice_question 2 initial) = Some 2 \<and>
   showAnswer (option_onClick video_choice_question 2 initial)"
proof -
  have h: "\<not> showAnswer initial"
    by (simp add: initial_def)
  have c: "correct video_choice_question = Num (int 0)"
       "correct video_choice_question \<noteq> Num (int 2)"
    by (simp_all add: video_choice_question_def)
  show ?thesis
    using option_onClick_scores [OF h, of video_choice_question 0]
          option_onClick_scores [OF h, of video_choice_question 2] h c
    by (simp add: initial_def)
qed

text \<open>
  C2. A click on an option button while the answer is revealed changes nothing: the
  whole state, score, lives, selected answer and reveal flag included, is as before.
\<close>

theorem option_onClick_revealed:
  assumes "showAnswer s"
  shows "option_onClick q index s = s"
  using assms by (simp add: option_onClick_def)

theorem option_onClick_revealed_witness:
  "showAnswer (option_onClick video_choice_question 0 initial) \<and>
   option_onClick video_choice_question 2 (option_onClick video_choice_question 0 initial) =
   option_onClick video_choice_question 0 initial"
proof -
  have h: "showAnswer (option_onClick video_choice_question 0 initial)"
    by (simp add: option_onClick_def handleAnswer_def initial_def Let_def)
  show ?thesis
    using option_onClick_revealed [OF h, of video_choice_question 2] h by simp
qed

section \<open>Retrying\<close>

text \<open>
  C6. From any state, the retry button sets lives to 3, score to 0, both indices to 0
  and the picked words to the empty list.
\<close>

theorem retry_onClick_resets:
  "lives (retry_onClick s) = 3 \<and> score (retry_onClick s) = 0 \<and>
   currentLesson (retry_onClick s) = 0 \<and> currentQuestion (retry_onClick s) = 0 \<and>
   orderedWords (retry_onClick s) = []"
  by (simp add: retry_onClick_def)

text \<open>
  C9. The retry button leaves the selected answer, the reveal flag, the hint flag and
  the playing flag (and the navigation log) as they were; so when the losing answer left
  the answer revealed, the restarted session shows the first question already revealed.
\<close>

theorem retry_onClick_frame:
  "selectedAnswer (retry_onClick s) = selectedAnswer s \<and>
   showAnswer (retry_onClick s) = showAnswer s \<and>
   showHint (retry_onClick s) = showHint s \<and>
   isPlaying (retry_onClick s) = isPlaying s \<and>
   navigated (retry_onClick s) = navigated s \<and>
   (showAnswer s \<longrightarrow> showAnswer (retry_onClick s) \<and> position (retry_onClick s) = (0, 0))"
  by (simp add: retry_onClick_def position_def)

theorem retry_onClick_frame_witness:
  "showAnswer
     \<lparr>currentLesson = 0, currentQuestion = 3, selectedAnswer = Some 1, showAnswer = True,
      lives = 0, showHint = True, score = 10, orderedWords = [], isPlaying = True,
      navigated = []\<rparr> \<and>
   retry_onClick
     \<lparr>currentLesson = 0, currentQuestion = 3, selectedAnswer = Some 1, showAnswer = True,
      lives = 0, showHint = True, score = 10, orderedWords = [], isPlaying = True,
      navigated = []\<rparr> =
     \<lparr>currentLesson = 0, currentQuestion = 0, selectedAnswer = Some 1, showAnswer = True,
      lives = 3, showHint = True, score = 0, orderedWords = [], isPlaying = True,
      navigated = []\<rparr>"
  using retry_onClick_frame
    [of "\<lparr>currentLesson = 0, currentQuestion = 3, selectedAnswer = Some 1, showAnswer = True,
      lives = 0, showHint = True, score = 10, orderedWords = [], isPlaying = True,
      navigated = []\<rparr>"]
  by (simp add: retry_onClick_def)

section \<open>Advancing\<close>


lemma nth_questions_nonempty:
  "wf_lessons ls \<Longrightarrow> i < length ls \<Longrightarrow> questions (ls ! i) \<noteq> []"
  by (simp add: wf_lessons_def list_all_length)

lemma handleNext_in_bounds:
  assumes "wf_lessons ls" "in_bounds ls s"
  shows "in_bounds ls (handleNext ls (ls ! currentLesson s) s)"
  using assms nth_questions_nonempty [of ls "Suc (currentLesson s)"]
  by (auto simp: in_bounds_def handleNext_def Let_def)

lemma lookup_in_bounds:
  assumes "in_bounds ls s"
  shows "lesson_at ls (currentLesson s) = Some (ls ! currentLesson s)"
    and "question_at (ls ! currentLesson s) (currentQuestion s) =
         Some (questions (ls ! currentLesson s) ! currentQuestion s)"
  using assms by (simp_all add: in_bounds_def lesson_at_def question_at_def)




section \<open>Sessions\<close>

text \<open>
  On a well-formed table no render throws, and every state of a session keeps the
  indices in range, the lives between 0 and 3, the answer revealed whenever the lives are
  0, and the picked words free of repetition.
\<close>

lemma inv_initial: "wf_lessons ls \<Longrightarrow> session_inv ls initial"
  using nth_questions_nonempty [of ls 0]
  by (simp add: session_inv_def in_bounds_def initial_def wf_lessons_def)

lemma step_game_over:
  assumes "in_bounds ls s" "lives s = 0"
  shows "ComprehensiveStudy ls ev s = Inr (if ev = RetryClick then retry_onClick s else s)"
  using assms by (cases ev) (simp_all add: ComprehensiveStudy_def lookup_in_bounds)

lemma retry_inv: "wf_lessons ls \<Longrightarrow> session_inv ls (retry_onClick s)"
  using nth_questions_nonempty [of ls 0]
  by (simp add: session_inv_def in_bounds_def retry_onClick_def wf_lessons_def)

lemma handleNext_inv:
  assumes "wf_lessons ls" "session_inv ls s" "lives s \<noteq> 0"
  shows "session_inv ls (handleNext ls (ls ! currentLesson s) s)"
proof -
  have "in_bounds ls (handleNext ls (ls ! currentLesson s) s)"
    using assms handleNext_in_bounds by (simp add: session_inv_def)
  moreover have "lives (handleNext ls l s) = lives s"
    and "orderedWords (handleNext ls l s) = orderedWords s" for l
    by (simp_all add: handleNext_def Let_def)
  ultimately show ?thesis
    using assms by (simp add: session_inv_def)
qed

lemma renderQuestion_inv:
  assumes "session_inv ls s" "lives s \<noteq> 0"
  shows "session_inv ls (renderQuestion q ev s)"
  using assms
  by (cases ev)
     (auto simp: session_inv_def in_bounds_def renderQuestion_def handler_defs Let_def)

lemma step_inv:
  assumes "wf_lessons ls" "session_inv ls s"
  shows "\<exists>s'. ComprehensiveStudy ls ev s = Inr s' \<and> session_inv ls s'"
proof (cases "lives s = 0")
  case True
  then show ?thesis
    using assms step_game_over [of ls s ev] retry_inv [of ls s]
    by (simp add: session_inv_def)
next
  case False
  have b: "in_bounds ls s"
    using assms by (simp add: session_inv_def)
  show ?thesis
    using assms False handleNext_inv [of ls s] renderQuestion_inv [of ls s]
    by (cases ev)
       (simp_all add: ComprehensiveStudy_def lookup_in_bounds [OF b] back_onClick_def,
        simp_all add: session_inv_def in_bounds_def)
qed

lemma run_inv:
  assumes "wf_lessons ls" "session_inv ls s"
  shows "\<exists>s'. run ls evs s = Inr s' \<and> session_inv ls s'"
  using assms(2)
proof (induction evs arbitrary: s)
  case Nil
  then show ?case by simp
next
  case (Cons ev evs)
  obtain s1 where "ComprehensiveStudy ls ev s = Inr s1" "session_inv ls s1"
    using step_inv [OF assms(1) Cons.prems] by blast
  then show ?case
    using Cons.IH [of s1] by simp
qed

lemma wf_drill: "wf_lessons drill"
  by (simp add: wf_lessons_def drill_def)

lemma wf_shipped: "wf_lessons lessons"
  by (simp add: wf_lessons_def lessons_def)

text \<open>
  C4. In every session from the initial state the lives stay within 0..3. A state with
  0 lives shows the game-over screen, where a click on an option button leaves the state
  (score and lives included) as it is, as does every event but the retry button, which
  restores 3 lives.
\<close>

theorem lives_bounded_game_over:
  assumes "wf_lessons ls"
  shows "case run ls evs initial of
           Inl e \<Rightarrow> False
         | Inr s \<Rightarrow>
             0 \<le> lives s \<and> lives s \<le> 3 \<and>
             (lives s = 0 \<longrightarrow>
                game_over s \<and>
                (\<forall>q index. option_onClick q index s = s) \<and>
                (\<forall>ev. ev \<noteq> RetryClick \<longrightarrow> ComprehensiveStudy ls ev s = Inr s) \<and>
                ComprehensiveStudy ls RetryClick s = Inr (retry_onClick s) \<and>
                lives (retry_onClick s) = 3)"
proof -
  obtain s where s: "run ls evs initial = Inr s" "session_inv ls s"
    using run_inv [OF assms inv_initial [OF assms]] by blast
  have b: "in_bounds ls s" and l: "0 \<le> lives s" "lives s \<le> 3"
    using s(2) by (simp_all add: session_inv_def)
  have "game_over s \<and>
        (\<forall>q index. option_onClick q index s = s) \<and>
        (\<forall>ev. ev \<noteq> RetryClick \<longrightarrow> ComprehensiveStudy ls ev s = Inr s) \<and>
        ComprehensiveStudy ls RetryClick s = Inr (retry_onClick s) \<and>
        lives (retry_onClick s) = 3" if z: "lives s = 0"
  proof -
    have "showAnswer s"
      using s(2) z by (simp add: session_inv_def)
    then have "\<forall>q index. option_onClick q index s = s"
      by (simp add: option_onClick_def)
    moreover have "ComprehensiveStudy ls ev s = Inr s" if "ev \<noteq> RetryClick" for ev
      using step_game_over [OF b z, of ev] that by simp
    moreover have "ComprehensiveStudy ls RetryClick s = Inr (retry_onClick s)"
      using step_game_over [OF b z, of RetryClick] by simp
    ultimately show ?thesis
      using z by (simp add: game_over_def retry_onClick_def)
  qed
  then show ?thesis
    using s(1) l by simp
qed

theorem lives_bounded_game_over_witness:
  "wf_lessons drill \<and>
   run drill [OptionClick 1, NextClick, OptionClick 2, NextClick, OptionClick 3] initial =
     Inr \<lparr>currentLesson = 0, currentQuestion = 2, selectedAnswer = Some 3, showAnswer = True,
          lives = 0, showHint = False, score = 0, orderedWords = [], isPlaying = False,
          navigated = []\<rparr> \<and>
   game_over \<lparr>currentLesson = 0, currentQuestion = 2, selectedAnswer = Some 3,
          showAnswer = True, lives = 0, showHint = False, score = 0, orderedWords = [],
          isPlaying = False, navigated = []\<rparr> \<and>
   option_onClick video_choice_question 0
       \<lparr>currentLesson = 0, currentQuestion = 2, selectedAnswer = Some 3, showAnswer = True,
        lives = 0, showHint = False, score = 0, orderedWords = [], isPlaying = False,
        navigated = []\<rparr> =
       \<lparr>currentLesson = 0, currentQuestion = 2, selectedAnswer = Some 3, showAnswer = True,
        lives = 0, showHint = False, score = 0, orderedWords = [], isPlaying = False,
        navigated = []\<rparr> \<and>
   ComprehensiveStudy drill NextClick
       \<lparr>currentLesson = 0, currentQuestion = 2, selectedAnswer = Some 3, showAnswer = True,
        lives = 0, showHint = False, score = 0, orderedWords = [], isPlaying = False,
        navigated = []\<rparr> =
     Inr \<lparr>currentLesson = 0, currentQuestion = 2, selectedAnswer = Some 3, showAnswer = True,
          lives = 0, showHint = False, score = 0, orderedWords = [], isPlaying = False,
          navigated = []\<rparr>"
proof -
  have r: "run drill [OptionClick 1, NextClick, OptionClick 2, NextClick, OptionClick 3] initial =
     Inr \<lparr>currentLesson = 0, currentQuestion = 2, selectedAnswer = Some 3, showAnswer = True,
          lives = 0, showHint = False, score = 0, orderedWords = [], isPlaying = False,
          navigated = []\<rparr>"
    by (simp add: screen_defs handler_defs drill_def initial_def video_choice_question_def
        Let_def)
  show ?thesis
    using lives_bounded_game_over [OF wf_drill,
        of "[OptionClick 1, NextClick, OptionClick 2, NextClick, OptionClick 3]"]
      wf_drill
    unfolding r by simp
qed

text \<open>
  C7. In every session the picked words hold each word object at most once, and a click
  on the button of a word already picked (a disabled button) leaves the state as it is.
\<close>

theorem orderedWords_distinct:
  assumes "wf_lessons ls"
  shows "case run ls evs initial of
           Inl e \<Rightarrow> False
         | Inr s \<Rightarrow>
             distinct (orderedWords s) \<and>
             (\<forall>index. (currentLesson s, currentQuestion s, index) \<in> set (orderedWords s) \<longrightarrow>
                ComprehensiveStudy ls (WordClick index) s = Inr s)"
proof -
  obtain s where s: "run ls evs initial = Inr s" "session_inv ls s"
    using run_inv [OF assms inv_initial [OF assms]] by blast
  have b: "in_bounds ls s" and d: "distinct (orderedWords s)"
    using s(2) by (simp_all add: session_inv_def)
  have "ComprehensiveStudy ls (WordClick index) s = Inr s"
    if "(currentLesson s, currentQuestion s, index) \<in> set (orderedWords s)" for index
    using that
    by (simp add: ComprehensiveStudy_def lookup_in_bounds [OF b] renderQuestion_def
        word_disabled_def Let_def)
  then show ?thesis
    using s(1) d by simp
qed

theorem orderedWords_distinct_witness:
  "wf_lessons lessons \<and>
   run lessons [OptionClick 0, NextClick, WordClick 2, WordClick 2, WordClick 0, WordClick 2]
     initial =
     Inr \<lparr>currentLesson = 0, currentQuestion = 1, selectedAnswer = None, showAnswer = False,
          lives = 3, showHint = False, score = 10, orderedWords = [(0, 1, 2), (0, 1, 0)],
          isPlaying = False, navigated = []\<rparr> \<and>
   ComprehensiveStudy lessons (WordClick 2)
       \<lparr>currentLesson = 0, currentQuestion = 1, selectedAnswer = None, showAnswer = False,
        lives = 3, showHint = False, score = 10, orderedWords = [(0, 1, 2), (0, 1, 0)],
        isPlaying = False, navigated = []\<rparr> =
     Inr \<lparr>currentLesson = 0, currentQuestion = 1, selectedAnswer = None, showAnswer = False,
          lives = 3, showHint = False, score = 10, orderedWords = [(0, 1, 2), (0, 1, 0)],
          isPlaying = False, navigated = []\<rparr>"
proof -
  have r: "run lessons
       [OptionClick 0, NextClick, WordClick 2, WordClick 2, WordClick 0, WordClick 2] initial =
     Inr \<lparr>currentLesson = 0, currentQuestion = 1, selectedAnswer = None, showAnswer = False,
          lives = 3, showHint = False, score = 10, orderedWords = [(0, 1, 2), (0, 1, 0)],
          isPlaying = False, navigated = []\<rparr>"
    by (simp add: screen_defs handler_defs lessons_def initial_def video_choice_question_def
        word_order_question_def Let_def)
  show ?thesis
    using orderedWords_distinct [OF wf_shipped,
        of "[OptionClick 0, NextClick, WordClick 2, WordClick 2, WordClick 0, WordClick 2]"]
      wf_shipped
    unfolding r by simp
qed

lemma step_score:
  assumes "in_bounds ls s"
  shows "\<exists>s'. ComprehensiveStudy ls ev s = Inr s' \<and>
           score s' = (if restart ev s then 0
                       else if correct_answer ls ev s then score s + 10 else score s)"
proof (cases "lives s = 0")
  case True
  then show ?thesis
    using step_game_over [OF assms True, of ev]
    by (cases ev) (simp_all add: restart_def correct_answer_def retry_onClick_def)
next
  case False
  then show ?thesis
    by (cases ev)
       (auto simp: ComprehensiveStudy_def lookup_in_bounds [OF assms] restart_def
          correct_answer_def renderQuestion_def handler_defs Let_def)
qed

lemma run_score:
  assumes "wf_lessons ls"
  shows "session_inv ls s \<Longrightarrow> score s = 10 * int n \<Longrightarrow>
         \<exists>s'. run ls evs s = Inr s' \<and> score s' = 10 * int (correct_since_reset ls evs s n)"
proof (induction evs arbitrary: s n)
  case Nil
  then show ?case by simp
next
  case (Cons ev evs)
  obtain s1 where s1: "ComprehensiveStudy ls ev s = Inr s1" "session_inv ls s1"
    using step_inv [OF assms Cons.prems(1)] by blast
  have b: "in_bounds ls s"
    using Cons.prems(1) by (simp add: session_inv_def)
  let ?n = "if restart ev s then 0 else if correct_answer ls ev s then n + 1 else n"
  have "score s1 = 10 * int ?n"
    using step_score [OF b, of ev] s1(1) Cons.prems(2) by auto
  then show ?case
    using Cons.IH [OF s1(2), of ?n] s1(1) by simp
qed

text \<open>
  C10. In every session the score is 10 times the number of correct answers given since
  the last retry (or since mount), hence a non-negative multiple of 10.
\<close>

theorem score_counts_correct_answers:
  assumes "wf_lessons ls"
  shows "case run ls evs initial of
           Inl e \<Rightarrow> False
         | Inr s \<Rightarrow>
             score s = 10 * int (correct_since_reset ls evs initial 0) \<and>
             0 \<le> score s \<and> score s mod 10 = 0"
proof -
  have "score initial = 10 * int 0"
    by (simp add: initial_def)
  then obtain s where
    "run ls evs initial = Inr s"
    "score s = 10 * int (correct_since_reset ls evs initial 0)"
    using run_score [OF assms inv_initial [OF assms], of 0 evs] by blast
  then show ?thesis by simp
qed

theorem score_counts_correct_answers_witness:
  "wf_lessons drill \<and>
   correct_since_reset drill
     [OptionClick 0, NextClick, OptionClick 1, NextClick, OptionClick 1, NextClick,
      OptionClick 1, RetryClick, NextClick, OptionClick 0] initial 0 = 1 \<and>
   run drill
     [OptionClick 0, NextClick, OptionClick 1, NextClick, OptionClick 1, NextClick,
      OptionClick 1, RetryClick, NextClick, OptionClick 0] initial =
     Inr \<lparr>currentLesson = 0, currentQuestion = 1, selectedAnswer = Some 0, showAnswer = True,
          lives = 3, showHint = False, score = 10, orderedWords = [], isPlaying = False,
          navigated = []\<rparr>"
proof -
  have r: "run drill
     [OptionClick 0, NextClick, OptionClick 1, NextClick, OptionClick 1, NextClick,
      OptionClick 1, RetryClick, NextClick, OptionClick 0] initial =
     Inr \<lparr>currentLesson = 0, currentQuestion = 1, selectedAnswer = Some 0, showAnswer = True,
          lives = 3, showHint = False, score = 10, orderedWords = [], isPlaying = False,
          navigated = []\<rparr>"
    by (simp add: screen_defs handler_defs drill_def initial_def video_choice_question_def
        Let_def)
  have c: "correct_since_reset drill
     [OptionClick 0, NextClick, OptionClick 1, NextClick, OptionClick 1, NextClick,
      OptionClick 1, RetryClick, NextClick, OptionClick 0] initial 0 = 1"
    by (simp add: screen_defs handler_defs drill_def initial_def video_choice_question_def
        restart_def correct_answer_def Let_def)
  show ?thesis
    using score_counts_correct_answers [OF wf_drill,
        of "[OptionClick 0, NextClick, OptionClick 1, NextClick, OptionClick 1, NextClick,
      OptionClick 1, RetryClick, NextClick, OptionClick 0]"]
      wf_drill
    unfolding r c by simp
qed







end
